theory Spec2Isabelle
  imports Complex_Main "HOL-Library.Word"
begin

section \<open>Redlock: a quorum lock over several Redis clients\<close>

text \<open>
  A shallow embedding of the class \<open>Redlock\<close> (constructor, \<open>generateLockId\<close>,
  \<open>executeOnAllClients\<close>, \<open>lockInstances\<close>, \<open>unlockInstances\<close>, \<open>acquire\<close>,
  \<open>release\<close>, \<open>extend\<close>) and of the \<open>set\<close> methods of the Redis adapters.

  Conventions of the embedding:
  \<^item> a JavaScript \<open>number\<close> that holds a count or a duration in milliseconds is an
    \<open>int\<close>; \<open>NaN\<close>, the infinities and fractions are outside the model, and IEEE
    rounding is not modelled (\<open>clockDriftFactor\<close> is the exact rational 1/100);
    \<open>undefined\<close> for an optional field is \<open>None\<close>;
  \<^item> a rejected promise or a thrown \<open>Error\<close> is \<open>Inl message\<close>, a fulfilled one is
    \<open>Inr value\<close>;
  \<^item> everything the class does to the outside (calls on the clients, timers, emitted
    events) is appended to a trace, in program order;
  \<^item> what the outside does (what each client answers, what the clock shows, what the
    random source yields) is an environment that the operations take as a parameter, so
    that a theorem about every environment is a theorem about every behaviour of the
    stores;
  \<^item> event listeners are assumed not to throw, so \<open>emit\<close> only records the event.
    (Without a listener for \<open>'error'\<close>, Node's \<open>emit('error', e)\<close> throws \<open>e\<close>; wherever
    the class emits \<open>'error'\<close> outside \<open>executeOnAllClients\<close> it throws the same \<open>e\<close> in
    the next statement, so the outcome for the caller is the same.)
  \<^item> a client is a handle (a number); the environment's answers for \<open>i\<close> are those of
    the \<open>i\<close>-th client of the list.
\<close>

subsection \<open>Data\<close>

type_synonym client = nat
type_synonym js_error = string

text \<open>
  \<open>interface RedlockOptions { retryCount?: number; retryDelay?: number }\<close>
\<close>

record RedlockOptions =
  opt_retryCount :: "int option"
  opt_retryDelay :: "int option"

text \<open>The private fields of \<open>class Redlock\<close>.\<close>

record Redlock =
  clients :: "client list"
  retryCount :: int
  retryDelay :: int
  quorum :: nat
  clockDriftFactor :: rat

text \<open>
  \<open>a || b\<close> on an optional number: \<open>undefined\<close> and \<open>0\<close> are falsy, every other
  integer is truthy.
\<close>

definition js_or :: "int option \<Rightarrow> int \<Rightarrow> int" where
  "js_or a b = (case a of None \<Rightarrow> b | Some n \<Rightarrow> if n = 0 then b else n)"

text \<open>\<open>options?.field\<close>\<close>

definition optional_chain :: "'a option \<Rightarrow> ('a \<Rightarrow> 'b option) \<Rightarrow> 'b option" where
  "optional_chain options field = (case options of None \<Rightarrow> None | Some ob \<Rightarrow> field ob)"

subsection \<open>The constructor\<close>

text \<open>
  \<^verbatim>\<open>
  constructor(clients: RedisClient[], options?: RedlockOptions) {
    this.clients = clients;
    this.retryCount = options?.retryCount || 3;
    this.retryDelay = options?.retryDelay || 200; // milliseconds
    this.quorum = Math.floor(clients.length / 2) + 1;
  }
  \<close>
  together with the field initialiser \<open>clockDriftFactor: number = 0.01\<close>.
\<close>

definition constructor :: "client list \<Rightarrow> RedlockOptions option \<Rightarrow> Redlock" where
  "constructor cs options =
     \<lparr> clients = cs,
       retryCount = js_or (optional_chain options opt_retryCount) 3,
       retryDelay = js_or (optional_chain options opt_retryDelay) 200,
       quorum = length cs div 2 + 1,
       clockDriftFactor = 1 / 100 \<rparr>"

subsection \<open>The drift budget and the validity time\<close>

text \<open>
  From \<open>acquire\<close>:
  \<^verbatim>\<open>
  const drift = Math.floor(this.clockDriftFactor * ttl) + 2;
  const validityTime = ttl - elapsedTime - drift;
  \<close>
\<close>

definition drift :: "Redlock \<Rightarrow> int \<Rightarrow> int" where
  "drift rl ttl = \<lfloor>clockDriftFactor rl * of_int ttl\<rfloor> + 2"

definition validityTime :: "Redlock \<Rightarrow> int \<Rightarrow> int \<Rightarrow> int" where
  "validityTime rl ttl elapsedTime = ttl - elapsedTime - drift rl ttl"

text \<open>The drift budget as the specification words it, with the ceiling.\<close>

definition spec_drift_budget :: "int \<Rightarrow> int" where
  "spec_drift_budget ttl = \<lceil>(1 / 100 :: rat) * of_int ttl\<rceil> + 2"

subsection \<open>Values, events and effects\<close>

type_synonym resource = string
type_synonym token = string

text \<open>
  The two Lua scripts. \<open>unlockScript\<close> is
  \<^verbatim>\<open>if redis.call("get", KEYS[1]) == ARGV[1] then return redis.call("del", KEYS[1]) else return 0 end\<close>
  and \<open>extendScript\<close> is
  \<^verbatim>\<open>if redis.call("get", KEYS[1]) == ARGV[1] then return redis.call("pexpire", KEYS[1], ARGV[2]) else return 0 end\<close>
\<close>

datatype script = unlockScript | extendScript

text \<open>
  \<open>'OK' | null\<close>, what \<open>RedisClient.set\<close> resolves to.
\<close>

datatype set_result = OK | Null

text \<open>
  The elements of a results array: a number, \<open>null\<close> or
  \<open>undefined\<close>.
\<close>

datatype js_value = Num int | JNull | Undefined

text \<open>
  \<open>(string | number)[]\<close>, the arguments of \<open>eval\<close>.
\<close>

datatype eval_arg = ArgString string | ArgNumber int

text \<open>
  \<open>options?: { nx?: boolean; px?: number }\<close> of
  \<open>RedisClient.set\<close>.
\<close>

record set_options =
  nx :: "bool option"
  px :: "int option"

text \<open>The events of the class, each with the fields of its payload.\<close>

datatype event =
    lockAcquired resource token int
  | attemptFailed resource token nat
  | lockReleased resource token
  | lockExtended resource token int
  | lockError client js_error
  | unlockError client js_error
  | extendError client js_error
  | error js_error

datatype effect =
    SetCall client resource token set_options
  | EvalCall client script "string list" "eval_arg list"
  | SetTimeout int
  | Emit event

subsection \<open>The outside world\<close>

text \<open>
  Logical time is the number of awaits completed so far (\<open>tick\<close>). The environment says
  what the \<open>i\<close>-th client of the list answers to a call made at a tick (a value, or a
  rejection), what \<open>Date.now()\<close> shows at a tick, and which bytes the random source
  yields. Nothing is assumed about it.
\<close>

record env =
  set_reply :: "nat \<Rightarrow> nat \<Rightarrow> js_error + set_result"
  eval_reply :: "nat \<Rightarrow> nat \<Rightarrow> js_error + int"
  clock :: "nat \<Rightarrow> int"
  random_byte :: "nat \<Rightarrow> 8 word"

record world =
  tick :: nat
  drawn :: nat
  trace :: "effect list"

definition Date_now :: "env \<Rightarrow> world \<Rightarrow> int" where
  "Date_now env w = clock env (tick w)"

definition emit :: "event \<Rightarrow> world \<Rightarrow> world" where
  "emit ev w = w\<lparr>trace := trace w @ [Emit ev]\<rparr>"

subsection \<open>Promises\<close>

text \<open>
  An async function with one await: what it does before the await (\<open>issued\<close>), how the
  promise settles (\<open>outcome\<close>), and what it does after the await (\<open>settled\<close>).
\<close>

record 'a task =
  issued :: "effect list"
  outcome :: "js_error + 'a"
  settled :: "effect list"

text \<open>
  \<open>try { const v = await body; return on_value(v) } catch (e) { on_error(e) }\<close>: the
  handler yields the events it emits and what it returns or throws.
\<close>

definition try_catch ::
  "'a task \<Rightarrow> ('a \<Rightarrow> 'b) \<Rightarrow> (js_error \<Rightarrow> effect list \<times> (js_error + 'b)) \<Rightarrow> 'b task" where
  "try_catch body on_value on_error =
     (case outcome body of
        Inr v \<Rightarrow> \<lparr>issued = issued body, outcome = Inr (on_value v), settled = settled body\<rparr>
      | Inl e \<Rightarrow>
          (case on_error e of
             (effs, r) \<Rightarrow>
               \<lparr>issued = issued body, outcome = r, settled = settled body @ effs\<rparr>))"

text \<open>
  \<open>Promise.all\<close>: rejected as soon as one promise is rejected (here: the first of the
  list), else fulfilled with all the values. All requests go out before any answer is
  handled.
\<close>

fun all_values :: "(js_error + 'a) list \<Rightarrow> js_error + 'a list" where
  "all_values [] = Inr []"
| "all_values (Inl e # ps) = Inl e"
| "all_values (Inr v # ps) =
     (case all_values ps of Inl e \<Rightarrow> Inl e | Inr vs \<Rightarrow> Inr (v # vs))"

definition Promise_all :: "'a task list \<Rightarrow> 'a list task" where
  "Promise_all ps =
     \<lparr>issued = concat (map issued ps),
      outcome = all_values (map outcome ps),
      settled = concat (map settled ps)\<rparr>"

definition await :: "'a task \<Rightarrow> world \<Rightarrow> (js_error + 'a) \<times> world" where
  "await p w =
     (outcome p, w\<lparr>tick := Suc (tick w), trace := trace w @ issued p @ settled p\<rparr>)"

text \<open>
  The calls on a client: the request goes into the trace, the environment answers.
\<close>

definition client_set ::
  "env \<Rightarrow> world \<Rightarrow> nat \<Rightarrow> client \<Rightarrow> resource \<Rightarrow> token \<Rightarrow> set_options \<Rightarrow> set_result task" where
  "client_set env w i c key val options =
     \<lparr>issued = [SetCall c key val options], outcome = set_reply env (tick w) i, settled = []\<rparr>"

definition client_eval ::
  "env \<Rightarrow> world \<Rightarrow> nat \<Rightarrow> client \<Rightarrow> script \<Rightarrow> string list \<Rightarrow> eval_arg list \<Rightarrow> int task" where
  "client_eval env w i c scr keys args =
     \<lparr>issued = [EvalCall c scr keys args], outcome = eval_reply env (tick w) i, settled = []\<rparr>"

subsection \<open>The private methods\<close>

text \<open>\<open>return new Promise((resolve) => setTimeout(resolve, ms))\<close>\<close>

definition sleep :: "int \<Rightarrow> unit task" where
  "sleep ms = \<lparr>issued = [SetTimeout ms], outcome = Inr (), settled = []\<rparr>"

text \<open>
  \<^verbatim>\<open>
  return Promise.all(
    this.clients.map(async (client) => {
      try { return await fn(client); }
      catch (error) { this.emit('error', error); return null; }
    }));
  \<close>
\<close>

definition executeOnAllClients ::
  "Redlock \<Rightarrow> (nat \<Rightarrow> client \<Rightarrow> js_value task) \<Rightarrow> js_value list task" where
  "executeOnAllClients rl fn =
     Promise_all
       (map (\<lambda>(i, client).
               try_catch (fn i client) (\<lambda>v. v) (\<lambda>err. ([Emit (error err)], Inr JNull)))
            (enumerate 0 (clients rl)))"

text \<open>\<open>randomBytes(16).toString('hex')\<close>\<close>

definition randomBytes :: "env \<Rightarrow> nat \<Rightarrow> world \<Rightarrow> 8 word list \<times> world" where
  "randomBytes env n w =
     (map (random_byte env) [drawn w ..< drawn w + n], w\<lparr>drawn := drawn w + n\<rparr>)"

definition hex_digit :: "nat \<Rightarrow> char" where
  "hex_digit d = ''0123456789abcdef'' ! d"

definition toString_hex :: "8 word list \<Rightarrow> string" where
  "toString_hex bytes =
     concat (map (\<lambda>b. [hex_digit (unat b div 16), hex_digit (unat b mod 16)]) bytes)"

definition generateLockId :: "env \<Rightarrow> world \<Rightarrow> token \<times> world" where
  "generateLockId env w = (case randomBytes env 16 w of (bytes, w') \<Rightarrow> (toString_hex bytes, w'))"

text \<open>
  \<^verbatim>\<open>
  const lockPromises = this.clients.map(async (client) => {
    try {
      const result = await client.set(resource, lockId, { px: ttl });
      return result === 'OK' ? 1 : 0;
    } catch (error) {
      this.emit('lockError', { client, error });
      return 0;
    }
  });
  const results = await Promise.all(lockPromises);
  const successfulLocks = results.reduce((acc: number, val) => acc + val, 0);
  return successfulLocks;
  \<close>
\<close>

definition lockPromises ::
  "env \<Rightarrow> Redlock \<Rightarrow> resource \<Rightarrow> token \<Rightarrow> int \<Rightarrow> world \<Rightarrow> nat task list" where
  "lockPromises env rl res lockId ttl w =
     map (\<lambda>(i, client).
            try_catch (client_set env w i client res lockId \<lparr>nx = None, px = Some ttl\<rparr>)
              (\<lambda>result. if result = OK then 1 else 0)
              (\<lambda>err. ([Emit (lockError client err)], Inr 0)))
         (enumerate 0 (clients rl))"

definition lockInstances ::
  "env \<Rightarrow> Redlock \<Rightarrow> resource \<Rightarrow> token \<Rightarrow> int \<Rightarrow> world \<Rightarrow> (js_error + nat) \<times> world" where
  "lockInstances env rl res lockId ttl w =
     (case await (Promise_all (lockPromises env rl res lockId ttl w)) w of
        (Inl e, w') \<Rightarrow> (Inl e, w')
      | (Inr results, w') \<Rightarrow> (Inr (foldl (+) 0 results), w'))"

text \<open>
  \<^verbatim>\<open>
  await this.executeOnAllClients(async (client) => {
    try { await client.eval(unlockScript, [resource], [lockId]); }
    catch (error) { this.emit('unlockError', { client, error }); }
  });
  \<close>
\<close>

definition unlockInstances ::
  "env \<Rightarrow> Redlock \<Rightarrow> resource \<Rightarrow> token \<Rightarrow> world \<Rightarrow> (js_error + unit) \<times> world" where
  "unlockInstances env rl res lockId w =
     (case await
             (executeOnAllClients rl
                (\<lambda>i client.
                   try_catch (client_eval env w i client unlockScript [res] [ArgString lockId])
                     (\<lambda>_. Undefined)
                     (\<lambda>err. ([Emit (unlockError client err)], Inr Undefined)))) w of
        (Inl e, w') \<Rightarrow> (Inl e, w')
      | (Inr _, w') \<Rightarrow> (Inr (), w'))"

subsection \<open>The adapters\<close>

text \<open>
  An adapter turns \<open>set(key, value, options)\<close> into the Redis command
  \<open>SET key value [NX] [PX ms]\<close>. The command is a record: for node-redis the fields are
  those of its options object (\<open>{ NX: true, PX: n }\<close>), for ioredis they are the tokens
  \<open>'NX'\<close> and \<open>'PX', n\<close> of the argument list.
\<close>

record SET_command =
  set_key :: string
  set_value :: string
  NX :: bool
  PX :: "int option"

text \<open>
  \<open>if (options?.nx)\<close> and \<open>if (options?.px)\<close>:
  \<open>undefined\<close>, \<open>false\<close> and 0 are falsy.
\<close>

definition truthy_nx :: "set_options option \<Rightarrow> bool" where
  "truthy_nx options = (optional_chain options nx = Some True)"

definition truthy_px :: "set_options option \<Rightarrow> bool" where
  "truthy_px options =
     (case optional_chain options px of None \<Rightarrow> False | Some n \<Rightarrow> n \<noteq> 0)"

text \<open>
  \<open>src/adapters/NodeRedisAdapter.ts\<close>:
  \<^verbatim>\<open>
  async set(key: string, value: string, options?: { px?: number }) {
    const setOptions: any = { NX: true };
    if (options?.px) setOptions.PX = options.px;
    const result = await this.client.set(key, value, setOptions);
  \<close>
\<close>

definition NodeRedisAdapter_set :: "string \<Rightarrow> string \<Rightarrow> set_options option \<Rightarrow> SET_command" where
  "NodeRedisAdapter_set key val options =
     \<lparr>set_key = key, set_value = val, NX = True,
      PX = (if truthy_px options then optional_chain options px else None)\<rparr>"

text \<open>
  \<open>src/adapters/IORedisAdapter.ts\<close>:
  \<^verbatim>\<open>
  async set(key: string, value: string, options?: { nx?: boolean; px?: number }) {
    const args = [key, value];
    if (options?.nx) args.push('NX');
    if (options?.px) args.push('PX', options.px.toString());
    const result = await this.client.set(...args);
  \<close>
\<close>

definition IORedisAdapter_set :: "string \<Rightarrow> string \<Rightarrow> set_options option \<Rightarrow> SET_command" where
  "IORedisAdapter_set key val options =
     \<lparr>set_key = key, set_value = val, NX = truthy_nx options,
      PX = (if truthy_px options then optional_chain options px else None)\<rparr>"

text \<open>
  The second \<open>NodeRedisAdapter\<close> of the sources (\<open>unnamed/part_000\<close>):
  \<^verbatim>\<open>
  async set(key: string, value: string, options?: { nx?: boolean; px?: number }) {
    const setOptions: any = {};
    if (options?.nx) setOptions.NX = true;
    if (options?.px) setOptions.PX = options.px;
    const result = await this.client.set(key, value, setOptions);
  \<close>
\<close>

definition NodeRedisAdapter_set_part_000 ::
  "string \<Rightarrow> string \<Rightarrow> set_options option \<Rightarrow> SET_command" where
  "NodeRedisAdapter_set_part_000 key val options =
     \<lparr>set_key = key, set_value = val, NX = truthy_nx options,
      PX = (if truthy_px options then optional_chain options px else None)\<rparr>"

text \<open>
  The second \<open>IORedisAdapter\<close> of the sources (at the head of \<open>unnamed/part_001\<close>), whose
  options are \<open>{ px: number }\<close>:
  \<^verbatim>\<open>
  async set(key: string, value: string, options: { px: number }) {
    const result = await this.client.set(key, value, 'PX', options.px.toString(), 'NX');
  \<close>
\<close>

definition IORedisAdapter_set_part_001 :: "string \<Rightarrow> string \<Rightarrow> int \<Rightarrow> SET_command" where
  "IORedisAdapter_set_part_001 key val options_px =
     \<lparr>set_key = key, set_value = val, NX = True, PX = Some options_px\<rparr>"

text \<open>
  What a Redis server does with the command is not code of this repository. It is
  taken from the command reference of Redis: \<open>SET\<close> with \<open>NX\<close> writes only when the key
  does not exist and answers nil otherwise; without \<open>NX\<close> it always writes; \<open>PX\<close> sets
  the expiry. A store maps a key to its value and its expiry time (\<open>None\<close>: none); an
  entry is live before its expiry.
\<close>

type_synonym store = "string \<rightharpoonup> string \<times> int option"

definition live :: "store \<Rightarrow> int \<Rightarrow> string \<Rightarrow> bool" where
  "live st now key =
     (case st key of
        None \<Rightarrow> False
      | Some (v, expiry) \<Rightarrow> (case expiry of None \<Rightarrow> True | Some t \<Rightarrow> now < t))"

definition redis_SET :: "SET_command \<Rightarrow> int \<Rightarrow> store \<Rightarrow> set_result \<times> store" where
  "redis_SET cmd now st =
     (if NX cmd \<and> live st now (set_key cmd) then (Null, st)
      else (OK, st(set_key cmd \<mapsto> (set_value cmd, map_option (\<lambda>ms. now + ms) (PX cmd)))))"

subsection \<open>acquire\<close>

text \<open>
  \<^verbatim>\<open>
  public async acquire(resource: string, ttl: number): Promise<string> {
    const lockId = this.generateLockId();
    const startTime = Date.now();
    let attempts = 0;
    while (attempts < this.retryCount) {
      const successfulLocks = await this.lockInstances(resource, lockId, ttl);
      if (successfulLocks >= this.quorum) {
        const elapsedTime = Date.now() - startTime;
        const drift = Math.floor(this.clockDriftFactor * ttl) + 2;
        const validityTime = ttl - elapsedTime - drift;
        if (validityTime > 0) {
          this.emit('lockAcquired', { resource, lockId, validityTime });
          return lockId;
        } else {
          await this.unlockInstances(resource, lockId);
          const error = new Error('Lock validity time expired before acquiring quorum.');
          this.emit('error', error);
          throw error;
        }
      } else {
        await this.unlockInstances(resource, lockId);
        this.emit('attemptFailed', { resource, lockId, attempts });
      }
      attempts++;
      await this.sleep(this.retryDelay);
    }
    const error = new Error('Failed to acquire lock after maximum retries.');
    this.emit('error', error);
    throw error;
  }
  \<close>
  The loop is \<open>acquire_loop\<close>, with the local variables as parameters.
\<close>

definition validity_expired :: js_error where
  "validity_expired = ''Lock validity time expired before acquiring quorum.''"

definition max_retries :: js_error where
  "max_retries = ''Failed to acquire lock after maximum retries.''"

function acquire_loop ::
  "env \<Rightarrow> Redlock \<Rightarrow> resource \<Rightarrow> int \<Rightarrow> token \<Rightarrow> int \<Rightarrow> nat \<Rightarrow> world \<Rightarrow> (js_error + token) \<times> world"
  where
  "acquire_loop env rl res ttl lockId startTime attempts w =
     (if int attempts < retryCount rl then
        (case lockInstances env rl res lockId ttl w of
           (Inl e, w1) \<Rightarrow> (Inl e, w1)
         | (Inr successfulLocks, w1) \<Rightarrow>
             if successfulLocks \<ge> quorum rl then
               (let elapsedTime = Date_now env w1 - startTime;
                    validity = validityTime rl ttl elapsedTime
                in if validity > 0 then (Inr lockId, emit (lockAcquired res lockId validity) w1)
                   else
                     (case unlockInstances env rl res lockId w1 of
                        (Inl e, w2) \<Rightarrow> (Inl e, w2)
                      | (Inr _, w2) \<Rightarrow> (Inl validity_expired, emit (error validity_expired) w2)))
             else
               (case unlockInstances env rl res lockId w1 of
                  (Inl e, w2) \<Rightarrow> (Inl e, w2)
                | (Inr _, w2) \<Rightarrow>
                    (case await (sleep (retryDelay rl))
                            (emit (attemptFailed res lockId attempts) w2) of
                       (Inl e, w3) \<Rightarrow> (Inl e, w3)
                     | (Inr _, w3) \<Rightarrow>
                         acquire_loop env rl res ttl lockId startTime (Suc attempts) w3)))
      else (Inl max_retries, emit (error max_retries) w))"
  by pat_completeness auto
termination
  by (relation "measure (\<lambda>(env, rl, res, ttl, lockId, startTime, attempts, w).
                           nat (retryCount rl - int attempts))") auto

declare acquire_loop.simps [simp del]

definition acquire ::
  "env \<Rightarrow> Redlock \<Rightarrow> resource \<Rightarrow> int \<Rightarrow> world \<Rightarrow> (js_error + token) \<times> world" where
  "acquire env rl res ttl w =
     (case generateLockId env w of
        (lockId, w0) \<Rightarrow> acquire_loop env rl res ttl lockId (Date_now env w0) 0 w0)"

subsection \<open>release\<close>

text \<open>
  \<^verbatim>\<open>
  public async release(resource: string, lockId: string): Promise<void> {
    try {
      await this.unlockInstances(resource, lockId);
      this.emit('lockReleased', { resource, lockId });
    } catch (error) {
      this.emit('error', error);
      throw error;
    }
  }
  \<close>
\<close>

definition release ::
  "env \<Rightarrow> Redlock \<Rightarrow> resource \<Rightarrow> token \<Rightarrow> world \<Rightarrow> (js_error + unit) \<times> world" where
  "release env rl res lockId w =
     (case unlockInstances env rl res lockId w of
        (Inr _, w1) \<Rightarrow> (Inr (), emit (lockReleased res lockId) w1)
      | (Inl e, w1) \<Rightarrow> (Inl e, emit (error e) w1))"

subsection \<open>extend\<close>

text \<open>
  \<^verbatim>\<open>
  public async extend(resource: string, lockId: string, ttl: number): Promise<void> {
    const results = await this.executeOnAllClients(async (client) => {
      try {
        return await client.eval(extendScript, [resource], [lockId, ttl]);
      } catch (error) {
        this.emit('extendError', { client, error });
        return null;
      }
    });
    const extensions = results.filter((res) => Number(res) === 1).length;
    if (extensions >= this.quorum) {
      this.emit('lockExtended', { resource, lockId, ttl });
      return;
    } else {
      const error = new Error('Failed to extend lock on a majority of instances.');
      this.emit('error', error);
      throw error;
    }
  }
  \<close>
\<close>

definition extend_failed :: js_error where
  "extend_failed = ''Failed to extend lock on a majority of instances.''"

text \<open>
  \<open>Number(res) === 1\<close>: \<open>Number(null)\<close> is 0 and
  \<open>Number(undefined)\<close> is \<open>NaN\<close>.
\<close>

definition Number_is_1 :: "js_value \<Rightarrow> bool" where
  "Number_is_1 v = (case v of Num n \<Rightarrow> n = 1 | JNull \<Rightarrow> False | Undefined \<Rightarrow> False)"

definition extend ::
  "env \<Rightarrow> Redlock \<Rightarrow> resource \<Rightarrow> token \<Rightarrow> int \<Rightarrow> world \<Rightarrow> (js_error + unit) \<times> world" where
  "extend env rl res lockId ttl w =
     (case await
             (executeOnAllClients rl
                (\<lambda>i client.
                   try_catch
                     (client_eval env w i client extendScript [res] [ArgString lockId, ArgNumber ttl])
                     Num
                     (\<lambda>err. ([Emit (extendError client err)], Inr JNull)))) w of
        (Inl e, w1) \<Rightarrow> (Inl e, w1)
      | (Inr results, w1) \<Rightarrow>
          (let extensions = length (filter Number_is_1 results)
           in if extensions \<ge> quorum rl then (Inr (), emit (lockExtended res lockId ttl) w1)
              else (Inl extend_failed, emit (error extend_failed) w1)))"

subsection \<open>Notions used in the statements\<close>

text \<open>
  The vote of one client: 1 when its \<open>set\<close> resolved to \<open>'OK'\<close>,
  else 0.
\<close>

definition vote :: "js_error + set_result \<Rightarrow> nat" where
  "vote r = (case r of Inr result \<Rightarrow> if result = OK then 1 else 0 | Inl e \<Rightarrow> 0)"

text \<open>
  The number of clients whose \<open>set\<close> call made at tick \<open>t\<close>
  resolved to \<open>'OK'\<close>.
\<close>

definition votes :: "env \<Rightarrow> Redlock \<Rightarrow> nat \<Rightarrow> nat" where
  "votes env rl t = length (filter (\<lambda>i. set_reply env t i = Inr OK) [0 ..< length (clients rl)])"

text \<open>
  The \<open>lockError\<close> events of a fan-out of \<open>set\<close> calls made at
  tick \<open>t\<close>: one per client whose call was rejected, tagged with that client.
\<close>

definition lock_errors :: "env \<Rightarrow> Redlock \<Rightarrow> nat \<Rightarrow> effect list" where
  "lock_errors env rl t =
     concat (map (\<lambda>(i, c). case set_reply env t i of
                              Inl e \<Rightarrow> [Emit (lockError c e)] | Inr r \<Rightarrow> [])
                 (enumerate 0 (clients rl)))"

text \<open>
  The per-client error events (\<open>unlockError\<close> or \<open>extendError\<close>)
  of a fan-out of \<open>eval\<close> calls made at tick \<open>t\<close>.
\<close>

definition eval_errors ::
  "(client \<Rightarrow> js_error \<Rightarrow> event) \<Rightarrow> env \<Rightarrow> Redlock \<Rightarrow> nat \<Rightarrow> effect list" where
  "eval_errors ev env rl t =
     concat (map (\<lambda>(i, c). case eval_reply env t i of
                              Inl e \<Rightarrow> [Emit (ev c e)] | Inr n \<Rightarrow> [])
                 (enumerate 0 (clients rl)))"

text \<open>
  The number of clients whose \<open>eval\<close> call made at tick \<open>t\<close>
  resolved to 1.
\<close>

definition extensions :: "env \<Rightarrow> Redlock \<Rightarrow> nat \<Rightarrow> nat" where
  "extensions env rl t =
     length (filter (\<lambda>i. eval_reply env t i = Inr 1) [0 ..< length (clients rl)])"

text \<open>
  What \<open>lockInstances\<close> started at tick \<open>t\<close> adds to the trace:
  the \<open>set\<close> call on every client, then the \<open>lockError\<close> events.
\<close>

definition fan_out ::
  "env \<Rightarrow> Redlock \<Rightarrow> resource \<Rightarrow> token \<Rightarrow> int \<Rightarrow> nat \<Rightarrow> effect list" where
  "fan_out env rl res lockId ttl t =
     map (\<lambda>c. SetCall c res lockId \<lparr>nx = None, px = Some ttl\<rparr>) (clients rl)
     @ lock_errors env rl t"

text \<open>
  What \<open>unlockInstances\<close> started at tick \<open>t\<close> adds to the trace:
  the check-then-delete call on every client, then the \<open>unlockError\<close> events.
\<close>

definition rollback ::
  "env \<Rightarrow> Redlock \<Rightarrow> resource \<Rightarrow> token \<Rightarrow> nat \<Rightarrow> effect list" where
  "rollback env rl res lockId t =
     map (\<lambda>c. EvalCall c unlockScript [res] [ArgString lockId]) (clients rl)
     @ eval_errors unlockError env rl t"

text \<open>
  A failed attempt takes three awaits (the \<open>set\<close> fan-out, the rollback, the
  sleep), so attempt \<open>k\<close> (from 0) of a call entered at tick \<open>t\<close>
  starts at tick \<open>t + 3 * k\<close>.
\<close>

definition attempt_tick :: "nat \<Rightarrow> nat \<Rightarrow> nat" where
  "attempt_tick t k = t + 3 * k"

text \<open>The tokens of the \<open>set\<close> calls in a trace, in order.\<close>

fun set_tokens :: "effect list \<Rightarrow> token list" where
  "set_tokens [] = []"
| "set_tokens (SetCall c key val options # es) = val # set_tokens es"
| "set_tokens (e # es) = set_tokens es"

subsection \<open>Concrete runs\<close>

text \<open>
  Three clients, \<open>retryCount\<close> 3 and \<open>retryDelay\<close> 100, as in the unit tests, started in
  a world where nothing has happened yet.
\<close>

definition test_redlock :: Redlock where
  "test_redlock =
     constructor [0, 1, 2] (Some \<lparr>opt_retryCount = Some 3, opt_retryDelay = Some 100\<rparr>)"

definition initial_world :: world where
  "initial_world = \<lparr>tick = 0, drawn = 0, trace = []\<rparr>"

text \<open>
  \<open>retry_env\<close>: client 0 is unreachable throughout; at the first fan-out client 1
  answers \<open>null\<close> (one vote of three), from then on clients 1 and 2 answer \<open>'OK'\<close>. Each
  fan-out takes 10 ms and the sleep 110 ms. The random source yields the bytes 0, 1, 2, ...
\<close>

definition retry_env :: env where
  "retry_env =
     \<lparr>set_reply = (\<lambda>t i. if i = 0 then Inl ''ECONNREFUSED''
                          else if t = 0 \<and> i = 1 then Inr Null else Inr OK),
      eval_reply = (\<lambda>t i. if i = 0 then Inl ''ECONNREFUSED''
                           else if i = 2 then Inr 1 else Inr 0),
      clock = (\<lambda>t. 1000 + 10 * int t + (if 3 \<le> t then 100 else 0)),
      random_byte = (\<lambda>n. of_nat n)\<rparr>"

text \<open>
  \<open>slow_env\<close>: every client answers \<open>'OK'\<close>, but the clock jumps from 1000 to 8000 during
  the first fan-out (the unit test mocks \<open>Date.now\<close> with these two readings).
\<close>

definition slow_env :: env where
  "slow_env =
     \<lparr>set_reply = (\<lambda>t i. Inr OK),
      eval_reply = (\<lambda>t i. Inr 1),
      clock = (\<lambda>t. if t = 0 then 1000 else 8000),
      random_byte = (\<lambda>n. of_nat n)\<rparr>"

definition retry_token :: token where
  "retry_token = ''000102030405060708090a0b0c0d0e0f''"

text \<open>
  The world in which the second attempt of the run in \<open>retry_env\<close> starts.
\<close>

definition second_attempt_world :: world where
  "second_attempt_world =
     \<lparr>tick = 3, drawn = 16,
      trace =
        [SetCall 0 ''r'' retry_token \<lparr>nx = None, px = Some 1000\<rparr>,
         SetCall 1 ''r'' retry_token \<lparr>nx = None, px = Some 1000\<rparr>,
         SetCall 2 ''r'' retry_token \<lparr>nx = None, px = Some 1000\<rparr>,
         Emit (lockError 0 ''ECONNREFUSED''),
         EvalCall 0 unlockScript [''r''] [ArgString retry_token],
         EvalCall 1 unlockScript [''r''] [ArgString retry_token],
         EvalCall 2 unlockScript [''r''] [ArgString retry_token],
         Emit (unlockError 0 ''ECONNREFUSED''),
         Emit (attemptFailed ''r'' retry_token 0),
         SetTimeout 100]\<rparr>"

section \<open>Theorems\<close>

subsection \<open>The fan-outs in closed form\<close>

lemma all_values_Inr: "all_values (map Inr vs) = Inr vs"
  by (induction vs) auto

lemma outcome_try_catch:
  "outcome (try_catch body f h) = (case outcome body of Inr v \<Rightarrow> Inr (f v) | Inl e \<Rightarrow> snd (h e))"
  by (simp add: try_catch_def split: sum.splits prod.splits)

lemma issued_try_catch: "issued (try_catch body f h) = issued body"
  by (simp add: try_catch_def split: sum.splits prod.splits)

lemma settled_try_catch:
  "settled (try_catch body f h) = settled body @ (case outcome body of Inr v \<Rightarrow> [] | Inl e \<Rightarrow> fst (h e))"
  by (simp add: try_catch_def split: sum.splits prod.splits)

lemma map_outcome_lockPromises:
  "map outcome (lockPromises env rl res lockId ttl w) =
   map Inr (map (\<lambda>(i, c). vote (set_reply env (tick w) i)) (enumerate 0 (clients rl)))"
  by (auto simp: lockPromises_def outcome_try_catch client_set_def vote_def split: sum.splits)

lemma foldl_add_nat: "foldl (+) (a::nat) xs = a + sum_list xs"
  by (induction xs arbitrary: a) auto

lemma sum_list_indicator: "sum_list (map (\<lambda>x. if P x then 1 else 0) xs) = length (filter P xs)"
  by (induction xs) auto

lemma vote_indicator: "vote r = (if r = Inr OK then 1 else 0)"
  by (auto simp: vote_def split: sum.splits)

lemma map_index_enumerate: "map (\<lambda>(i, c). f i) (enumerate n xs) = map f [n ..< n + length xs]"
proof -
  have "map f [n ..< n + length xs] = map f (map fst (enumerate n xs))"
    by (simp only: map_fst_enumerate)
  also have "\<dots> = map (\<lambda>(i, c). f i) (enumerate n xs)"
    by (simp add: case_prod_unfold comp_def del: map_fst_enumerate)
  finally show ?thesis
    by (rule sym)
qed

lemma concat_issued_lockPromises:
  "concat (map issued (lockPromises env rl res lockId ttl w)) =
   map (\<lambda>c. SetCall c res lockId \<lparr>nx = None, px = Some ttl\<rparr>) (clients rl)"
proof -
  have "concat (map (\<lambda>(i, c). [f c]) (enumerate n xs)) = map f xs" for f :: "client \<Rightarrow> effect" and n xs
    by (induction xs arbitrary: n) auto
  then show ?thesis
    by (simp add: lockPromises_def issued_try_catch client_set_def case_prod_unfold comp_def)
qed

lemma concat_settled_lockPromises:
  "concat (map settled (lockPromises env rl res lockId ttl w)) = lock_errors env rl (tick w)"
  unfolding lockPromises_def lock_errors_def map_map comp_def
  by (rule arg_cong [where f = concat], rule map_cong)
     (auto simp: settled_try_catch client_set_def split: sum.splits)

lemma outcome_all_lockPromises:
  "outcome (Promise_all (lockPromises env rl res lockId ttl w)) =
   Inr (map (\<lambda>(i, c). vote (set_reply env (tick w) i)) (enumerate 0 (clients rl)))"
  unfolding Promise_all_def by (simp only: task.simps map_outcome_lockPromises all_values_Inr)

lemma sum_votes:
  "foldl (+) 0 (map (\<lambda>(i, c). vote (set_reply env t i)) (enumerate 0 (clients rl)))
   = votes env rl t"
  by (simp add: foldl_add_nat map_index_enumerate vote_indicator sum_list_indicator votes_def)

lemma lockInstances_eq:
  "lockInstances env rl res lockId ttl w =
     (Inr (votes env rl (tick w)),
      w\<lparr>tick := Suc (tick w),
        trace := trace w
          @ map (\<lambda>c. SetCall c res lockId \<lparr>nx = None, px = Some ttl\<rparr>) (clients rl)
          @ lock_errors env rl (tick w)\<rparr>)"
proof -
  let ?p = "Promise_all (lockPromises env rl res lockId ttl w)"
  have "issued ?p = map (\<lambda>c. SetCall c res lockId \<lparr>nx = None, px = Some ttl\<rparr>) (clients rl)"
    by (simp add: Promise_all_def concat_issued_lockPromises)
  moreover have "settled ?p = lock_errors env rl (tick w)"
    by (simp add: Promise_all_def concat_settled_lockPromises)
  ultimately show ?thesis
    unfolding lockInstances_def await_def
    by (simp add: outcome_all_lockPromises sum_votes)
qed

lemma concat_map_singleton_enumerate:
  "concat (map (\<lambda>(i, c). [f c]) (enumerate n xs)) = map f xs"
  by (induction xs arbitrary: n) auto

lemma executeOnAllClients_eval:
  "executeOnAllClients rl
     (\<lambda>i client. try_catch (client_eval env w i client scr keys args) f
                    (\<lambda>err. ([Emit (ev client err)], Inr d))) =
   \<lparr>issued = map (\<lambda>c. EvalCall c scr keys args) (clients rl),
    outcome = Inr (map (\<lambda>(i, c). case eval_reply env (tick w) i of
                                    Inr n \<Rightarrow> f n | Inl e \<Rightarrow> d)
                       (enumerate 0 (clients rl))),
    settled = eval_errors ev env rl (tick w)\<rparr>"
proof -
  let ?g = "\<lambda>(i, c). case eval_reply env (tick w) i of Inr n \<Rightarrow> f n | Inl e \<Rightarrow> d"
  let ?ts = "map (\<lambda>(i, client).
               try_catch
                 (try_catch (client_eval env w i client scr keys args) f
                    (\<lambda>err. ([Emit (ev client err)], Inr d)))
                 (\<lambda>v. v) (\<lambda>err. ([Emit (error err)], Inr JNull)))
            (enumerate 0 (clients rl))"
  have "map outcome ?ts = map Inr (map ?g (enumerate 0 (clients rl)))"
    by (auto simp: outcome_try_catch client_eval_def split: sum.splits)
  then have o: "all_values (map outcome ?ts) = Inr (map ?g (enumerate 0 (clients rl)))"
    by (simp only: all_values_Inr)
  have i: "concat (map issued ?ts) = map (\<lambda>c. EvalCall c scr keys args) (clients rl)"
    using concat_map_singleton_enumerate [of "\<lambda>c. EvalCall c scr keys args" 0 "clients rl"]
    by (simp add: issued_try_catch client_eval_def case_prod_unfold comp_def)
  have s: "concat (map settled ?ts) = eval_errors ev env rl (tick w)"
    unfolding eval_errors_def map_map comp_def
    by (rule arg_cong [where f = concat], rule map_cong)
       (auto simp: settled_try_catch outcome_try_catch client_eval_def split: sum.splits)
  show ?thesis
    unfolding executeOnAllClients_def Promise_all_def
    by (simp only: o i s)
qed

lemma unlockInstances_eq:
  "unlockInstances env rl res lockId w =
     (Inr (),
      w\<lparr>tick := Suc (tick w),
        trace := trace w
          @ map (\<lambda>c. EvalCall c unlockScript [res] [ArgString lockId]) (clients rl)
          @ eval_errors unlockError env rl (tick w)\<rparr>)"
  unfolding unlockInstances_def
  by (simp add: executeOnAllClients_eval await_def)

lemma length_filter_map_enumerate:
  "length (filter P (map (\<lambda>(i, c). g i) (enumerate n xs))) =
   length (filter (\<lambda>i. P (g i)) [n ..< n + length xs])"
  by (simp only: map_index_enumerate filter_map length_map comp_def)

lemma count_extensions:
  "length (filter Number_is_1
     (map (\<lambda>(i, c). case eval_reply env t i of Inr n \<Rightarrow> Num n | Inl e \<Rightarrow> JNull)
          (enumerate 0 (clients rl)))) = extensions env rl t"
proof -
  have a: "Number_is_1 (case r of Inr n \<Rightarrow> Num n | Inl e \<Rightarrow> JNull) = (r = Inr 1)"
    for r :: "js_error + int"
    by (auto simp: Number_is_1_def split: sum.splits)
  have "length (filter Number_is_1
          (map (\<lambda>(i, c). case eval_reply env t i of Inr n \<Rightarrow> Num n | Inl e \<Rightarrow> JNull)
               (enumerate 0 (clients rl)))) =
        length (filter (\<lambda>i. Number_is_1 (case eval_reply env t i of
                                            Inr n \<Rightarrow> Num n | Inl e \<Rightarrow> JNull))
                  [0 ..< 0 + length (clients rl)])"
    by (rule length_filter_map_enumerate)
  then show ?thesis
    by (simp only: a extensions_def add_0)
qed

lemma extend_eq:
  "extend env rl res lockId ttl w =
     (let w1 = w\<lparr>tick := Suc (tick w),
                 trace := trace w
                   @ map (\<lambda>c. EvalCall c extendScript [res] [ArgString lockId, ArgNumber ttl]) (clients rl)
                   @ eval_errors extendError env rl (tick w)\<rparr>
      in if quorum rl \<le> extensions env rl (tick w)
         then (Inr (), emit (lockExtended res lockId ttl) w1)
         else (Inl extend_failed, emit (error extend_failed) w1))"
  unfolding extend_def executeOnAllClients_eval await_def
  by (simp only: task.simps prod.case sum.case count_extensions Let_def)

lemma acquire_loop_step:
  "acquire_loop env rl res ttl lockId startTime attempts w =
     (if int attempts < retryCount rl then
        (let w1 = w\<lparr>tick := Suc (tick w),
                   trace := trace w @ fan_out env rl res lockId ttl (tick w)\<rparr>;
             validity = validityTime rl ttl (clock env (Suc (tick w)) - startTime)
         in if quorum rl \<le> votes env rl (tick w) then
              if 0 < validity then (Inr lockId, emit (lockAcquired res lockId validity) w1)
              else (Inl validity_expired,
                    w1\<lparr>tick := Suc (Suc (tick w)),
                       trace := trace w1 @ rollback env rl res lockId (Suc (tick w))
                                @ [Emit (error validity_expired)]\<rparr>)
            else acquire_loop env rl res ttl lockId startTime (Suc attempts)
                   (w1\<lparr>tick := Suc (Suc (Suc (tick w))),
                       trace := trace w1 @ rollback env rl res lockId (Suc (tick w))
                                @ [Emit (attemptFailed res lockId attempts),
                                   SetTimeout (retryDelay rl)]\<rparr>))
      else (Inl max_retries, emit (error max_retries) w))"
  by (subst acquire_loop.simps)
     (simp add: lockInstances_eq unlockInstances_eq Let_def Date_now_def emit_def await_def
        sleep_def rollback_def fan_out_def)

lemma find_map_list: "find P (map f xs) = map_option f (find (\<lambda>x. P (f x)) xs)"
  by (induction xs) auto

lemma find_upt_Suc:
  "find P [0 ..< Suc n] = (if P 0 then Some 0 else map_option Suc (find (\<lambda>k. P (Suc k)) [0 ..< n]))"
proof -
  have "[0 ..< Suc n] = 0 # map Suc [0 ..< n]"
    by (simp add: upt_conv_Cons map_Suc_upt del: upt_Suc)
  then show ?thesis
    by (simp add: find_map_list del: upt_Suc)
qed

lemma attempt_tick_0: "attempt_tick t 0 = t"
  by (simp add: attempt_tick_def)

lemma attempt_tick_Suc: "attempt_tick t (Suc k) = attempt_tick (Suc (Suc (Suc t))) k"
  by (simp add: attempt_tick_def)

lemma acquire_loop_result:
  "fst (acquire_loop env rl res ttl lockId startTime attempts w) =
     (case find (\<lambda>k. quorum rl \<le> votes env rl (attempt_tick (tick w) k))
                [0 ..< nat (retryCount rl) - attempts] of
        None \<Rightarrow> Inl max_retries
      | Some k \<Rightarrow>
          if 0 < validityTime rl ttl (clock env (Suc (attempt_tick (tick w) k)) - startTime)
          then Inr lockId else Inl validity_expired)"
proof (induction "nat (retryCount rl) - attempts" arbitrary: attempts w)
  case 0
  then have "\<not> int attempts < retryCount rl" by linarith
  with 0 show ?case
    by (subst acquire_loop_step) simp
next
  case (Suc n)
  then have lt: "int attempts < retryCount rl" and n: "n = nat (retryCount rl) - Suc attempts"
    by linarith+
  have up: "nat (retryCount rl) - attempts = Suc n" using Suc by simp
  show ?case
  proof (cases "quorum rl \<le> votes env rl (tick w)")
    case True
    with lt show ?thesis
      unfolding up find_upt_Suc
      by (subst acquire_loop_step) (simp add: Let_def attempt_tick_0)
  next
    case False
    let ?w1 = "w\<lparr>tick := Suc (tick w),
                   trace := trace w @ fan_out env rl res lockId ttl (tick w)\<rparr>"
    let ?w3 = "?w1\<lparr>tick := Suc (Suc (Suc (tick w))),
                   trace := trace ?w1 @ rollback env rl res lockId (Suc (tick w))
                     @ [Emit (attemptFailed res lockId attempts), SetTimeout (retryDelay rl)]\<rparr>"
    have step: "acquire_loop env rl res ttl lockId startTime attempts w =
                acquire_loop env rl res ttl lockId startTime (Suc attempts) ?w3"
      using lt False by (subst acquire_loop_step) (simp add: Let_def)
    have ih: "fst (acquire_loop env rl res ttl lockId startTime (Suc attempts) ?w3) =
       (case find (\<lambda>k. quorum rl \<le> votes env rl (attempt_tick (Suc (Suc (Suc (tick w)))) k))
                  [0 ..< n] of
          None \<Rightarrow> Inl max_retries
        | Some k \<Rightarrow>
            if 0 < validityTime rl ttl
                     (clock env (Suc (attempt_tick (Suc (Suc (Suc (tick w)))) k)) - startTime)
            then Inr lockId else Inl validity_expired)"
      using Suc.hyps(1) [OF n, of ?w3] by (simp flip: n cong: option.case_cong)
    show ?thesis
      unfolding up find_upt_Suc step ih attempt_tick_Suc attempt_tick_0
      using False
      by (simp add: attempt_tick_Suc split: option.splits)
  qed
qed

subsection \<open>The acquire loop: its trace and its success\<close>

lemma set_tokens_append: "set_tokens (xs @ ys) = set_tokens xs @ set_tokens ys"
  by (induction xs rule: set_tokens.induct) auto

lemma set_tokens_concat_emits:
  "set_tokens (concat (map (\<lambda>(i, c). case r i of Inl e \<Rightarrow> [Emit (ev c e)] | Inr n \<Rightarrow> []) xs)) = []"
  by (induction xs) (auto simp: set_tokens_append split: sum.splits)

lemma set_tokens_fan_out:
  "set_tokens (fan_out env rl res lockId ttl t) = replicate (length (clients rl)) lockId"
proof -
  have "set_tokens (map (\<lambda>c. SetCall c res lockId opts) cs) = replicate (length cs) lockId"
    for cs opts
    by (induction cs) auto
  then show ?thesis
    by (simp add: fan_out_def set_tokens_append lock_errors_def set_tokens_concat_emits)
qed

lemma set_replicate_subset: "set (replicate n x) \<subseteq> {x}"
  by auto

lemma set_tokens_rollback: "set_tokens (rollback env rl res lockId t) = []"
proof -
  have "set_tokens (map (\<lambda>c. EvalCall c scr keys args) cs) = []" for cs scr keys args
    by (induction cs) auto
  then show ?thesis
    by (simp add: rollback_def set_tokens_append eval_errors_def set_tokens_concat_emits)
qed

lemma acquire_loop_trace:
  "\<exists>es. trace (snd (acquire_loop env rl res ttl lockId startTime attempts w)) = trace w @ es
        \<and> set (set_tokens es) \<subseteq> {lockId}
        \<and> drawn (snd (acquire_loop env rl res ttl lockId startTime attempts w)) = drawn w"
proof (induction "nat (retryCount rl) - attempts" arbitrary: attempts w)
  case 0
  then have "\<not> int attempts < retryCount rl" by linarith
  then show ?case
    by (subst (1 2) acquire_loop_step) (simp add: emit_def)
next
  case (Suc n)
  then have lt: "int attempts < retryCount rl" and n: "n = nat (retryCount rl) - Suc attempts"
    by linarith+
  show ?case
  proof (cases "quorum rl \<le> votes env rl (tick w)")
    case True
    with lt show ?thesis
      by (subst (1 2) acquire_loop_step)
         (simp add: Let_def emit_def set_tokens_append set_tokens_fan_out set_tokens_rollback
            set_replicate_subset)
  next
    case False
    let ?w1 = "w\<lparr>tick := Suc (tick w),
                   trace := trace w @ fan_out env rl res lockId ttl (tick w)\<rparr>"
    let ?w3 = "?w1\<lparr>tick := Suc (Suc (Suc (tick w))),
                   trace := trace ?w1 @ rollback env rl res lockId (Suc (tick w))
                     @ [Emit (attemptFailed res lockId attempts), SetTimeout (retryDelay rl)]\<rparr>"
    have step: "acquire_loop env rl res ttl lockId startTime attempts w =
                acquire_loop env rl res ttl lockId startTime (Suc attempts) ?w3"
      using lt False by (subst acquire_loop_step) (simp add: Let_def)
    from Suc.hyps(1) [OF n, of ?w3] obtain es where
      es: "trace (snd (acquire_loop env rl res ttl lockId startTime (Suc attempts) ?w3))
             = trace ?w3 @ es"
      "set (set_tokens es) \<subseteq> {lockId}"
      "drawn (snd (acquire_loop env rl res ttl lockId startTime (Suc attempts) ?w3)) = drawn ?w3"
      by blast
    show ?thesis
      unfolding step
      by (rule exI [of _ "fan_out env rl res lockId ttl (tick w)
              @ rollback env rl res lockId (Suc (tick w))
              @ [Emit (attemptFailed res lockId attempts), SetTimeout (retryDelay rl)] @ es"])
         (use es in \<open>simp add: set_tokens_append set_tokens_fan_out set_tokens_rollback
            set_replicate_subset\<close>)
  qed
qed

lemma acquire_loop_success:
  "acquire_loop env rl res ttl lockId startTime attempts w = (Inr tok, w') \<Longrightarrow>
     tok = lockId \<and>
     0 < validityTime rl ttl (Date_now env w' - startTime) \<and>
     last (trace w') = Emit (lockAcquired res lockId (validityTime rl ttl (Date_now env w' - startTime)))"
proof (induction "nat (retryCount rl) - attempts" arbitrary: attempts w)
  case 0
  then have "\<not> int attempts < retryCount rl" by linarith
  with 0(2) show ?case
    by (subst (asm) acquire_loop_step) simp
next
  case (Suc n)
  then have lt: "int attempts < retryCount rl" and n: "n = nat (retryCount rl) - Suc attempts"
    by linarith+
  show ?case
  proof (cases "quorum rl \<le> votes env rl (tick w)")
    case True
    with lt Suc.prems show ?thesis
      by (subst (asm) acquire_loop_step)
         (auto simp: Let_def emit_def Date_now_def split: if_splits)
  next
    case False
    with lt Suc.prems Suc.hyps(1) [OF n] show ?thesis
      by (subst (asm) acquire_loop_step) (simp add: Let_def)
  qed
qed

lemma tick_generateLockId: "tick (snd (generateLockId env w)) = tick w"
  by (simp add: generateLockId_def randomBytes_def)

subsection \<open>Two runs, evaluated\<close>

lemma retry_run:
  "acquire retry_env test_redlock ''r'' 1000 initial_world =
   (Inr retry_token,
    \<lparr>tick = 4, drawn = 16,
     trace =
       [SetCall 0 ''r'' retry_token \<lparr>nx = None, px = Some 1000\<rparr>,
        SetCall 1 ''r'' retry_token \<lparr>nx = None, px = Some 1000\<rparr>,
        SetCall 2 ''r'' retry_token \<lparr>nx = None, px = Some 1000\<rparr>,
        Emit (lockError 0 ''ECONNREFUSED''),
        EvalCall 0 unlockScript [''r''] [ArgString retry_token],
        EvalCall 1 unlockScript [''r''] [ArgString retry_token],
        EvalCall 2 unlockScript [''r''] [ArgString retry_token],
        Emit (unlockError 0 ''ECONNREFUSED''),
        Emit (attemptFailed ''r'' retry_token 0),
        SetTimeout 100,
        SetCall 0 ''r'' retry_token \<lparr>nx = None, px = Some 1000\<rparr>,
        SetCall 1 ''r'' retry_token \<lparr>nx = None, px = Some 1000\<rparr>,
        SetCall 2 ''r'' retry_token \<lparr>nx = None, px = Some 1000\<rparr>,
        Emit (lockError 0 ''ECONNREFUSED''),
        Emit (lockAcquired ''r'' retry_token 848)]\<rparr>)"
  by code_simp

lemma NodeRedisAdapter_set_never_overwrites:
  "live st now key \<Longrightarrow> redis_SET (NodeRedisAdapter_set key val options) now st = (Null, st)"
  by (simp add: redis_SET_def NodeRedisAdapter_set_def)

lemma IORedisAdapter_set_part_001_never_overwrites:
  "live st now key \<Longrightarrow> redis_SET (IORedisAdapter_set_part_001 key val p) now st = (Null, st)"
  by (simp add: redis_SET_def IORedisAdapter_set_part_001_def)

lemma NX_of_the_coordinator_request:
  "NX (NodeRedisAdapter_set key val (Some \<lparr>nx = None, px = Some ttl\<rparr>)) \<and>
   NX (IORedisAdapter_set_part_001 key val ttl) \<and>
   \<not> NX (IORedisAdapter_set key val (Some \<lparr>nx = None, px = Some ttl\<rparr>)) \<and>
   \<not> NX (NodeRedisAdapter_set_part_000 key val (Some \<lparr>nx = None, px = Some ttl\<rparr>))"
  by (simp add: NodeRedisAdapter_set_def IORedisAdapter_set_part_001_def IORedisAdapter_set_def
      NodeRedisAdapter_set_part_000_def truthy_nx_def optional_chain_def)

lemma drift_constructor_div: "drift (constructor cs options) ttl = ttl div 100 + 2"
proof -
  have "\<lfloor>(1 / 100 :: rat) * of_int ttl\<rfloor> = \<lfloor>(of_int ttl :: rat) / of_int 100\<rfloor>"
    by simp
  also have "\<dots> = ttl div 100"
    by (rule floor_divide_of_int_eq)
  finally show ?thesis
    by (simp add: drift_def constructor_def)
qed

text \<open>
  C5 as stated: the drift budget is \<open>ceil(clockDriftFactor * ttl) + 2\<close>. The code takes
  the floor; at \<open>ttl = 150\<close> it subtracts 3 where the ceiling gives 4.
\<close>

subsection \<open>The hexadecimal rendering\<close>

lemma hex_digit_in: "d < 16 \<Longrightarrow> hex_digit d \<in> set ''0123456789abcdef''"
  unfolding hex_digit_def by (rule nth_mem) simp

lemma length_toString_hex: "length (toString_hex bytes) = 2 * length bytes"
  by (induction bytes) (simp_all add: toString_hex_def)

lemma hex_pair_in:
  "set [hex_digit (unat b div 16), hex_digit (unat b mod 16)] \<subseteq> set ''0123456789abcdef''"
  for b :: "8 word"
proof -
  have "unat b < 256"
    using unsigned_less [of b, where ?'a = nat] by simp
  then have "unat b div 16 < 16"
    by (simp add: less_mult_imp_div_less)
  then have hi: "hex_digit (unat b div 16) \<in> set ''0123456789abcdef''"
    by (rule hex_digit_in)
  have "unat b mod 16 < 16"
    by simp
  then have lo: "hex_digit (unat b mod 16) \<in> set ''0123456789abcdef''"
    by (rule hex_digit_in)
  from hi lo show ?thesis
    by (simp del: set_simps add: list.set(2) list.set(1))
qed

lemma set_toString_hex: "set (toString_hex bytes) \<subseteq> set ''0123456789abcdef''"
proof (induction bytes)
  case Nil
  show ?case by (simp add: toString_hex_def)
next
  case (Cons b bytes)
  have "toString_hex (b # bytes) =
        [hex_digit (unat b div 16), hex_digit (unat b mod 16)] @ toString_hex bytes"
    by (simp add: toString_hex_def)
  then show ?case
    using hex_pair_in [of b] Cons.IH by (simp only: set_append Un_subset_iff)
qed

subsection \<open>The claims\<close>

text \<open>
  C1. The claim: during every acquire attempt the write issued to each store is a
  conditional set; it creates the key only when no live entry exists and never overwrites
  a live entry held under another token.
  \<open>lockInstances\<close> calls \<open>set(resource, lockId, { px: ttl })\<close> and never passes \<open>nx\<close>.
  Through \<open>src/adapters/IORedisAdapter.ts\<close>, which sends \<open>NX\<close> only on \<open>options.nx\<close>, the
  command is \<open>SET r B PX 1000\<close>: on a store where \<open>r\<close> is live under the token \<open>A\<close> it
  answers \<open>'OK'\<close> and replaces \<open>A\<close> by \<open>B\<close>. Through \<open>src/adapters/NodeRedisAdapter.ts\<close>, which
  always sends \<open>NX\<close>, the same request answers \<open>null\<close> and leaves the entry as it is.
\<close>

theorem C1_IORedisAdapter_overwrites_live_entry:
  "trace (snd (lockInstances slow_env (constructor [0] None) ''r'' ''B'' 1000 initial_world)) =
     [SetCall 0 ''r'' ''B'' \<lparr>nx = None, px = Some 1000\<rparr>] \<and>
   IORedisAdapter_set ''r'' ''B'' (Some \<lparr>nx = None, px = Some 1000\<rparr>) =
     \<lparr>set_key = ''r'', set_value = ''B'', NX = False, PX = Some 1000\<rparr> \<and>
   live [''r'' \<mapsto> (''A'', Some 5000)] 0 ''r'' \<and>
   redis_SET (IORedisAdapter_set ''r'' ''B'' (Some \<lparr>nx = None, px = Some 1000\<rparr>)) 0
       [''r'' \<mapsto> (''A'', Some 5000)] =
     (OK, [''r'' \<mapsto> (''B'', Some 1000)]) \<and>
   redis_SET (NodeRedisAdapter_set ''r'' ''B'' (Some \<lparr>nx = None, px = Some 1000\<rparr>)) 0
       [''r'' \<mapsto> (''A'', Some 5000)] =
     (Null, [''r'' \<mapsto> (''A'', Some 5000)])"
proof -
  have "trace (snd (lockInstances slow_env (constructor [0] None) ''r'' ''B'' 1000 initial_world)) =
     [SetCall 0 ''r'' ''B'' \<lparr>nx = None, px = Some 1000\<rparr>]"
    by code_simp
  moreover have "IORedisAdapter_set ''r'' ''B'' (Some \<lparr>nx = None, px = Some 1000\<rparr>) =
     \<lparr>set_key = ''r'', set_value = ''B'', NX = False, PX = Some 1000\<rparr>"
    by (simp add: IORedisAdapter_set_def truthy_nx_def truthy_px_def optional_chain_def)
  moreover have l: "live [''r'' \<mapsto> (''A'', Some 5000)] 0 ''r''"
    by (simp add: live_def)
  ultimately show ?thesis
    by (simp add: redis_SET_def NodeRedisAdapter_set_def)
qed

text \<open>
  C2. For every resource, ttl and pattern of per-store answers, \<open>acquire\<close> returns a
  token exactly when the first attempt (among the \<open>retryCount\<close> attempts) in which at
  least \<open>quorum\<close> stores answered \<open>'OK'\<close> has a strictly positive validity time; the token
  is the one generated for the call. In every other case it ends in an error: the
  validity error when that attempt's validity time is not positive, the retries error
  when no attempt reaches quorum.
\<close>

theorem C2_acquire_returns_token_iff_first_quorum_is_valid:
  "fst (acquire env rl res ttl w) =
     (case find (\<lambda>k. quorum rl \<le> votes env rl (attempt_tick (tick w) k))
                [0 ..< nat (retryCount rl)] of
        None \<Rightarrow> Inl max_retries
      | Some k \<Rightarrow>
          if 0 < validityTime rl ttl (clock env (Suc (attempt_tick (tick w) k)) - clock env (tick w))
          then Inr (fst (generateLockId env w)) else Inl validity_expired)"
  using acquire_loop_result [of env rl res ttl "fst (generateLockId env w)"
      "clock env (tick w)" 0 "snd (generateLockId env w)"]
  by (simp add: acquire_def Date_now_def tick_generateLockId case_prod_unfold
      cong: option.case_cong)

text \<open>
  C3 as stated: on every retry a new token is generated, so that no two attempts issue
  their conditional sets with the same token. In the run in \<open>retry_env\<close> the first attempt
  fails (one vote of three) and the second succeeds; all six \<open>set\<close> calls of the two
  attempts carry the same token.
\<close>

theorem C3_attempts_share_one_token:
  "trace (snd (acquire retry_env test_redlock ''r'' 1000 initial_world)) =
       [SetCall 0 ''r'' retry_token \<lparr>nx = None, px = Some 1000\<rparr>,
        SetCall 1 ''r'' retry_token \<lparr>nx = None, px = Some 1000\<rparr>,
        SetCall 2 ''r'' retry_token \<lparr>nx = None, px = Some 1000\<rparr>,
        Emit (lockError 0 ''ECONNREFUSED''),
        EvalCall 0 unlockScript [''r''] [ArgString retry_token],
        EvalCall 1 unlockScript [''r''] [ArgString retry_token],
        EvalCall 2 unlockScript [''r''] [ArgString retry_token],
        Emit (unlockError 0 ''ECONNREFUSED''),
        Emit (attemptFailed ''r'' retry_token 0),
        SetTimeout 100,
        SetCall 0 ''r'' retry_token \<lparr>nx = None, px = Some 1000\<rparr>,
        SetCall 1 ''r'' retry_token \<lparr>nx = None, px = Some 1000\<rparr>,
        SetCall 2 ''r'' retry_token \<lparr>nx = None, px = Some 1000\<rparr>,
        Emit (lockError 0 ''ECONNREFUSED''),
        Emit (lockAcquired ''r'' retry_token 848)] \<and>
   set_tokens (trace (snd (acquire retry_env test_redlock ''r'' 1000 initial_world))) =
     [retry_token, retry_token, retry_token, retry_token, retry_token, retry_token]"
  unfolding retry_run by simp

text \<open>
  C3 as amended: \<open>acquire\<close> generates one token per call, before the first attempt, from
  16 fresh bytes of the random source, and every \<open>set\<close> call of every attempt of that call
  carries this token. (What the call adds to the trace is what follows the trace it
  started with.)
\<close>

theorem C3_one_token_per_acquire_call:
  "take (length (trace w)) (trace (snd (acquire env rl res ttl w))) = trace w \<and>
   set (set_tokens (drop (length (trace w)) (trace (snd (acquire env rl res ttl w)))))
     \<subseteq> {fst (generateLockId env w)} \<and>
   fst (generateLockId env w) = toString_hex (map (random_byte env) [drawn w ..< drawn w + 16]) \<and>
   drawn (snd (acquire env rl res ttl w)) = drawn w + 16"
proof -
  let ?w0 = "snd (generateLockId env w)"
  let ?tok = "fst (generateLockId env w)"
  have w0: "trace ?w0 = trace w" "drawn ?w0 = drawn w + 16"
    by (simp_all add: generateLockId_def randomBytes_def)
  have a: "acquire env rl res ttl w = acquire_loop env rl res ttl ?tok (Date_now env ?w0) 0 ?w0"
    by (simp add: acquire_def case_prod_unfold)
  from acquire_loop_trace [of env rl res ttl ?tok "Date_now env ?w0" 0 ?w0]
  obtain es where es: "trace (snd (acquire env rl res ttl w)) = trace w @ es"
    "set (set_tokens es) \<subseteq> {?tok}" "drawn (snd (acquire env rl res ttl w)) = drawn w + 16"
    unfolding a w0 by blast
  have "?tok = toString_hex (map (random_byte env) [drawn w ..< drawn w + 16])"
    by (simp add: generateLockId_def randomBytes_def)
  then show ?thesis
    using es by simp
qed

text \<open>
  C4 as stated: the elapsed time subtracted in the validity time is measured from the
  start of the attempt that reached quorum. In the run in \<open>retry_env\<close> the second attempt
  starts when the clock shows 1130 and reaches quorum at 1140, ten milliseconds later, which
  would give a validity time of 978; the call was entered at 1000 and the code reports
  848, subtracting the 140 ms since the call was entered.
\<close>

theorem C4_elapsed_is_not_per_attempt:
  "acquire retry_env test_redlock ''r'' 1000 initial_world =
     acquire_loop retry_env test_redlock ''r'' 1000 retry_token
       (Date_now retry_env initial_world) 1 second_attempt_world \<and>
   Date_now retry_env initial_world = 1000 \<and>
   Date_now retry_env second_attempt_world = 1130 \<and>
   Date_now retry_env (snd (acquire retry_env test_redlock ''r'' 1000 initial_world)) = 1140 \<and>
   last (trace (snd (acquire retry_env test_redlock ''r'' 1000 initial_world))) =
     Emit (lockAcquired ''r'' retry_token 848) \<and>
   validityTime test_redlock 1000 (1140 - 1130) = 978 \<and>
   validityTime test_redlock 1000 (1140 - 1000) = 848"
proof -
  have "acquire_loop retry_env test_redlock ''r'' 1000 retry_token
          (Date_now retry_env initial_world) 1 second_attempt_world =
        acquire retry_env test_redlock ''r'' 1000 initial_world"
    unfolding retry_run by code_simp
  moreover have "Date_now retry_env initial_world = 1000"
    by code_simp
  moreover have "Date_now retry_env second_attempt_world = 1130"
    by code_simp
  moreover have
    "Date_now retry_env (snd (acquire retry_env test_redlock ''r'' 1000 initial_world)) = 1140"
    unfolding retry_run by code_simp
  moreover have "validityTime test_redlock 1000 (1140 - 1130) = 978"
    by code_simp
  moreover have "validityTime test_redlock 1000 (1140 - 1000) = 848"
    by code_simp
  ultimately show ?thesis
    unfolding retry_run by simp
qed

text \<open>
  C4 as amended: for the attempt that reaches quorum, the elapsed time subtracted in the
  validity time is the time between the one reading of the clock taken when the call was
  entered, before the first attempt, and the reading taken after the fan-out that reached
  quorum; it includes the earlier failed attempts and the retry delays. The first part is
  about a call that returns a token and the validity time it reports; the second says for
  the attempt \<open>k\<close> that reaches quorum how the call ends, by the sign of that validity
  time.
\<close>

theorem C4_elapsed_since_call_entry:
  "(acquire env rl res ttl w = (Inr tok, w') \<longrightarrow>
      last (trace w') =
        Emit (lockAcquired res tok (validityTime rl ttl (Date_now env w' - Date_now env w))) \<and>
      0 < validityTime rl ttl (Date_now env w' - Date_now env w)) \<and>
   (find (\<lambda>k. quorum rl \<le> votes env rl (attempt_tick (tick w) k)) [0 ..< nat (retryCount rl)]
      = Some k \<longrightarrow>
      fst (acquire env rl res ttl w) =
        (if 0 < validityTime rl ttl (clock env (Suc (attempt_tick (tick w) k)) - Date_now env w)
         then Inr (fst (generateLockId env w)) else Inl validity_expired))"
proof -
  let ?w0 = "snd (generateLockId env w)"
  let ?tok = "fst (generateLockId env w)"
  have a: "acquire env rl res ttl w = acquire_loop env rl res ttl ?tok (Date_now env ?w0) 0 ?w0"
    by (simp add: acquire_def case_prod_unfold)
  have d: "Date_now env ?w0 = Date_now env w"
    by (simp add: Date_now_def tick_generateLockId)
  have "last (trace w') =
          Emit (lockAcquired res tok (validityTime rl ttl (Date_now env w' - Date_now env w))) \<and>
        0 < validityTime rl ttl (Date_now env w' - Date_now env w)"
    if "acquire env rl res ttl w = (Inr tok, w')"
    using acquire_loop_success [of env rl res ttl ?tok "Date_now env ?w0" 0 ?w0 tok w'] that
    unfolding a d by simp
  moreover have "fst (acquire env rl res ttl w) =
        (if 0 < validityTime rl ttl (clock env (Suc (attempt_tick (tick w) k)) - Date_now env w)
         then Inr ?tok else Inl validity_expired)"
    if "find (\<lambda>k. quorum rl \<le> votes env rl (attempt_tick (tick w) k)) [0 ..< nat (retryCount rl)]
          = Some k"
    using acquire_loop_result [of env rl res ttl ?tok "Date_now env ?w0" 0 ?w0] that
    unfolding a d by (simp add: tick_generateLockId)
  ultimately show ?thesis
    by blast
qed

theorem C4_witness:
  "acquire retry_env test_redlock ''r'' 1000 initial_world =
     (Inr retry_token, snd (acquire retry_env test_redlock ''r'' 1000 initial_world)) \<and>
   last (trace (snd (acquire retry_env test_redlock ''r'' 1000 initial_world))) =
     Emit (lockAcquired ''r'' retry_token 848) \<and>
   Date_now retry_env (snd (acquire retry_env test_redlock ''r'' 1000 initial_world))
     - Date_now retry_env initial_world = 140 \<and>
   find (\<lambda>k. quorum test_redlock
               \<le> votes retry_env test_redlock (attempt_tick (tick initial_world) k))
        [0 ..< nat (retryCount test_redlock)] = Some 1 \<and>
   clock retry_env (Suc (attempt_tick (tick initial_world) 1)) - Date_now retry_env initial_world
     = 140 \<and>
   fst (acquire retry_env test_redlock ''r'' 1000 initial_world) = Inr retry_token"
proof -
  have r: "acquire retry_env test_redlock ''r'' 1000 initial_world =
     (Inr retry_token, snd (acquire retry_env test_redlock ''r'' 1000 initial_world))"
    unfolding retry_run by simp
  have e: "Date_now retry_env (snd (acquire retry_env test_redlock ''r'' 1000 initial_world))
     - Date_now retry_env initial_world = 140"
    unfolding retry_run by code_simp
  have v: "validityTime test_redlock 1000 140 = 848"
    by code_simp
  have f: "find (\<lambda>k. quorum test_redlock
                     \<le> votes retry_env test_redlock (attempt_tick (tick initial_world) k))
             [0 ..< nat (retryCount test_redlock)] = Some 1"
    by code_simp
  have c: "clock retry_env (Suc (attempt_tick (tick initial_world) 1))
             - Date_now retry_env initial_world = 140"
    by code_simp
  have g: "fst (acquire retry_env test_redlock ''r'' 1000 initial_world) = Inr retry_token"
    unfolding retry_run by simp
  from C4_elapsed_since_call_entry [of retry_env test_redlock "''r''" 1000 initial_world
      retry_token "snd (acquire retry_env test_redlock ''r'' 1000 initial_world)" 1]
  show ?thesis
    using r e v f c g by simp
qed

text \<open>
  C5 as stated: the drift budget is \<open>ceil(clockDriftFactor * ttl) + 2\<close>. The code takes
  the floor; at \<open>ttl = 150\<close> it subtracts 3 where the ceiling gives 4.
\<close>

theorem C5_drift_is_not_ceiling:
  "drift (constructor [0, 1, 2] None) 150 = 3 \<and> spec_drift_budget 150 = 4 \<and>
   drift (constructor [0, 1, 2] None) 150 \<noteq> spec_drift_budget 150"
proof -
  have "\<lceil>(1 / 100 :: rat) * of_int 150\<rceil> = 2"
    by (simp add: ceiling_eq_iff)
  then show ?thesis
    by (simp add: drift_constructor_div spec_drift_budget_def)
qed

text \<open>
  C5 as amended: for every ttl the drift budget is \<open>floor(clockDriftFactor * ttl) + 2\<close>
  with \<open>clockDriftFactor = 0.01\<close>, that is \<open>ttl div 100 + 2\<close>.
\<close>

theorem C5_drift_is_floor:
  "clockDriftFactor (constructor cs options) = 1 / 100 \<and>
   drift (constructor cs options) ttl = \<lfloor>(1 / 100 :: rat) * of_int ttl\<rfloor> + 2 \<and>
   drift (constructor cs options) ttl = ttl div 100 + 2"
  using drift_constructor_div [of cs options ttl]
  by (simp add: drift_def constructor_def)

text \<open>
  C6. For every pattern of per-store answers, \<open>extend\<close> returns normally exactly when the
  number of stores that answered 1 is at least \<open>quorum\<close>, and then its last event is
  \<open>lockExtended {resource, lockId, ttl}\<close>; with fewer it throws, and its last event is the
  error. Either way each store gets exactly one \<open>eval\<close> call: there is no retry.
\<close>

theorem C6_extend_iff_quorum:
  "(fst (extend env rl res lockId ttl w) = Inr ()) = (quorum rl \<le> extensions env rl (tick w)) \<and>
   (fst (extend env rl res lockId ttl w) = Inl extend_failed)
      = (extensions env rl (tick w) < quorum rl) \<and>
   trace (snd (extend env rl res lockId ttl w)) =
     trace w
     @ map (\<lambda>c. EvalCall c extendScript [res] [ArgString lockId, ArgNumber ttl]) (clients rl)
     @ eval_errors extendError env rl (tick w)
     @ [Emit (if quorum rl \<le> extensions env rl (tick w)
              then lockExtended res lockId ttl else error extend_failed)]"
  by (simp add: extend_eq Let_def emit_def)

text \<open>
  C7. For every resource and token and every pattern of per-store answers and failures,
  \<open>release\<close> returns normally, after one check-then-delete call on every store, and its
  last event is \<open>lockReleased {resource, lockId}\<close>.
\<close>

theorem C7_release_always_succeeds:
  "release env rl res lockId w =
     (Inr (),
      w\<lparr>tick := Suc (tick w),
        trace := trace w
          @ map (\<lambda>c. EvalCall c unlockScript [res] [ArgString lockId]) (clients rl)
          @ eval_errors unlockError env rl (tick w)
          @ [Emit (lockReleased res lockId)]\<rparr>)"
  by (simp add: release_def unlockInstances_eq emit_def)

text \<open>
  C8. An attempt that is entered (\<open>attempts < retryCount\<close>) and fails is rolled back on
  every store with the token of the call before anything else happens. With votes below
  quorum, the loop goes on with the next attempt from a world whose trace has the
  attempt's \<open>set\<close> calls, then the rollback, then \<open>attemptFailed\<close> and the timer; when that
  was the last attempt, the retries error follows. With quorum reached and a validity
  time that is not positive, \<open>acquire\<close> ends at once with the validity error: after the
  rollback only the error event follows, and no further attempt.
\<close>

theorem C8_failed_attempt_is_rolled_back:
  assumes "int attempts < retryCount rl"
  shows "(votes env rl (tick w) < quorum rl \<longrightarrow>
            acquire_loop env rl res ttl lockId startTime attempts w =
            acquire_loop env rl res ttl lockId startTime (Suc attempts)
              (w\<lparr>tick := tick w + 3,
                 trace := trace w @ fan_out env rl res lockId ttl (tick w)
                          @ rollback env rl res lockId (Suc (tick w))
                          @ [Emit (attemptFailed res lockId attempts),
                             SetTimeout (retryDelay rl)]\<rparr>)) \<and>
         (votes env rl (tick w) < quorum rl \<and> retryCount rl \<le> int attempts + 1 \<longrightarrow>
            acquire_loop env rl res ttl lockId startTime attempts w =
            (Inl max_retries,
             w\<lparr>tick := tick w + 3,
               trace := trace w @ fan_out env rl res lockId ttl (tick w)
                        @ rollback env rl res lockId (Suc (tick w))
                        @ [Emit (attemptFailed res lockId attempts),
                           SetTimeout (retryDelay rl),
                           Emit (error max_retries)]\<rparr>)) \<and>
         (quorum rl \<le> votes env rl (tick w) \<and>
          validityTime rl ttl (clock env (Suc (tick w)) - startTime) \<le> 0 \<longrightarrow>
            acquire_loop env rl res ttl lockId startTime attempts w =
            (Inl validity_expired,
             w\<lparr>tick := tick w + 2,
               trace := trace w @ fan_out env rl res lockId ttl (tick w)
                        @ rollback env rl res lockId (Suc (tick w))
                        @ [Emit (error validity_expired)]\<rparr>))"
proof -
  let ?w3 = "w\<lparr>tick := tick w + 3,
                 trace := trace w @ fan_out env rl res lockId ttl (tick w)
                          @ rollback env rl res lockId (Suc (tick w))
                          @ [Emit (attemptFailed res lockId attempts),
                             SetTimeout (retryDelay rl)]\<rparr>"
  have below: "acquire_loop env rl res ttl lockId startTime attempts w =
               acquire_loop env rl res ttl lockId startTime (Suc attempts) ?w3"
    if "votes env rl (tick w) < quorum rl"
    using assms that by (subst acquire_loop_step) (simp add: Let_def numeral_3_eq_3)
  have last: "acquire_loop env rl res ttl lockId startTime (Suc attempts) ?w3 =
              (Inl max_retries, emit (error max_retries) ?w3)"
    if "retryCount rl \<le> int attempts + 1"
    using that by (subst acquire_loop_step) simp
  have expired: "acquire_loop env rl res ttl lockId startTime attempts w =
            (Inl validity_expired,
             w\<lparr>tick := tick w + 2,
               trace := trace w @ fan_out env rl res lockId ttl (tick w)
                        @ rollback env rl res lockId (Suc (tick w))
                        @ [Emit (error validity_expired)]\<rparr>)"
    if "quorum rl \<le> votes env rl (tick w)"
      and "validityTime rl ttl (clock env (Suc (tick w)) - startTime) \<le> 0"
    using assms that by (subst acquire_loop_step) (simp add: Let_def numeral_2_eq_2)
  show ?thesis
    using below last expired by (simp add: emit_def)
qed

theorem C8_witness:
  "int 0 < retryCount test_redlock \<and>
   votes retry_env test_redlock (tick initial_world) < quorum test_redlock \<and>
   acquire_loop retry_env test_redlock ''r'' 1000 retry_token 1000 0 initial_world =
   acquire_loop retry_env test_redlock ''r'' 1000 retry_token 1000 1
     \<lparr>tick = 3, drawn = 0,
      trace =
        [SetCall 0 ''r'' retry_token \<lparr>nx = None, px = Some 1000\<rparr>,
         SetCall 1 ''r'' retry_token \<lparr>nx = None, px = Some 1000\<rparr>,
         SetCall 2 ''r'' retry_token \<lparr>nx = None, px = Some 1000\<rparr>,
         Emit (lockError 0 ''ECONNREFUSED''),
         EvalCall 0 unlockScript [''r''] [ArgString retry_token],
         EvalCall 1 unlockScript [''r''] [ArgString retry_token],
         EvalCall 2 unlockScript [''r''] [ArgString retry_token],
         Emit (unlockError 0 ''ECONNREFUSED''),
         Emit (attemptFailed ''r'' retry_token 0),
         SetTimeout 100]\<rparr> \<and>
   quorum test_redlock \<le> votes slow_env test_redlock (tick initial_world) \<and>
   validityTime test_redlock 1000 (clock slow_env (Suc (tick initial_world)) - 1000) \<le> 0 \<and>
   acquire_loop slow_env test_redlock ''r'' 1000 retry_token 1000 0 initial_world =
     (Inl validity_expired,
      \<lparr>tick = 2, drawn = 0,
       trace =
        [SetCall 0 ''r'' retry_token \<lparr>nx = None, px = Some 1000\<rparr>,
         SetCall 1 ''r'' retry_token \<lparr>nx = None, px = Some 1000\<rparr>,
         SetCall 2 ''r'' retry_token \<lparr>nx = None, px = Some 1000\<rparr>,
         EvalCall 0 unlockScript [''r''] [ArgString retry_token],
         EvalCall 1 unlockScript [''r''] [ArgString retry_token],
         EvalCall 2 unlockScript [''r''] [ArgString retry_token],
         Emit (error validity_expired)]\<rparr>) \<and>
   int 2 < retryCount test_redlock \<and> retryCount test_redlock \<le> int 2 + 1 \<and>
   acquire_loop retry_env test_redlock ''r'' 1000 retry_token 1000 2 initial_world =
     (Inl max_retries,
      \<lparr>tick = 3, drawn = 0,
       trace =
        [SetCall 0 ''r'' retry_token \<lparr>nx = None, px = Some 1000\<rparr>,
         SetCall 1 ''r'' retry_token \<lparr>nx = None, px = Some 1000\<rparr>,
         SetCall 2 ''r'' retry_token \<lparr>nx = None, px = Some 1000\<rparr>,
         Emit (lockError 0 ''ECONNREFUSED''),
         EvalCall 0 unlockScript [''r''] [ArgString retry_token],
         EvalCall 1 unlockScript [''r''] [ArgString retry_token],
         EvalCall 2 unlockScript [''r''] [ArgString retry_token],
         Emit (unlockError 0 ''ECONNREFUSED''),
         Emit (attemptFailed ''r'' retry_token 2),
         SetTimeout 100,
         Emit (error max_retries)]\<rparr>)"
proof -
  have h: "int 0 < retryCount test_redlock"
    by code_simp
  have h2: "int 2 < retryCount test_redlock"
    by code_simp
  have d: "retryCount test_redlock \<le> int 2 + 1"
    by code_simp
  have t3: "initial_world\<lparr>tick := tick initial_world + 3,
               trace := trace initial_world
                        @ fan_out retry_env test_redlock ''r'' retry_token 1000 (tick initial_world)
                        @ rollback retry_env test_redlock ''r'' retry_token (Suc (tick initial_world))
                        @ [Emit (attemptFailed ''r'' retry_token 2),
                           SetTimeout (retryDelay test_redlock),
                           Emit (error max_retries)]\<rparr> =
      \<lparr>tick = 3, drawn = 0,
       trace =
        [SetCall 0 ''r'' retry_token \<lparr>nx = None, px = Some 1000\<rparr>,
         SetCall 1 ''r'' retry_token \<lparr>nx = None, px = Some 1000\<rparr>,
         SetCall 2 ''r'' retry_token \<lparr>nx = None, px = Some 1000\<rparr>,
         Emit (lockError 0 ''ECONNREFUSED''),
         EvalCall 0 unlockScript [''r''] [ArgString retry_token],
         EvalCall 1 unlockScript [''r''] [ArgString retry_token],
         EvalCall 2 unlockScript [''r''] [ArgString retry_token],
         Emit (unlockError 0 ''ECONNREFUSED''),
         Emit (attemptFailed ''r'' retry_token 2),
         SetTimeout 100,
         Emit (error max_retries)]\<rparr>"
    by code_simp
  have a: "votes retry_env test_redlock (tick initial_world) < quorum test_redlock"
    by code_simp
  have b: "quorum test_redlock \<le> votes slow_env test_redlock (tick initial_world)"
    by code_simp
  have c: "validityTime test_redlock 1000 (clock slow_env (Suc (tick initial_world)) - 1000) \<le> 0"
    by code_simp
  have t1: "initial_world\<lparr>tick := tick initial_world + 3,
                 trace := trace initial_world @ fan_out retry_env test_redlock ''r'' retry_token 1000 (tick initial_world)
                          @ rollback retry_env test_redlock ''r'' retry_token (Suc (tick initial_world))
                          @ [Emit (attemptFailed ''r'' retry_token 0),
                             SetTimeout (retryDelay test_redlock)]\<rparr> =
     \<lparr>tick = 3, drawn = 0,
      trace =
        [SetCall 0 ''r'' retry_token \<lparr>nx = None, px = Some 1000\<rparr>,
         SetCall 1 ''r'' retry_token \<lparr>nx = None, px = Some 1000\<rparr>,
         SetCall 2 ''r'' retry_token \<lparr>nx = None, px = Some 1000\<rparr>,
         Emit (lockError 0 ''ECONNREFUSED''),
         EvalCall 0 unlockScript [''r''] [ArgString retry_token],
         EvalCall 1 unlockScript [''r''] [ArgString retry_token],
         EvalCall 2 unlockScript [''r''] [ArgString retry_token],
         Emit (unlockError 0 ''ECONNREFUSED''),
         Emit (attemptFailed ''r'' retry_token 0),
         SetTimeout 100]\<rparr>"
    by code_simp
  have t2: "initial_world\<lparr>tick := tick initial_world + 2,
               trace := trace initial_world @ fan_out slow_env test_redlock ''r'' retry_token 1000 (tick initial_world)
                        @ rollback slow_env test_redlock ''r'' retry_token (Suc (tick initial_world))
                        @ [Emit (error validity_expired)]\<rparr> =
      \<lparr>tick = 2, drawn = 0,
       trace =
        [SetCall 0 ''r'' retry_token \<lparr>nx = None, px = Some 1000\<rparr>,
         SetCall 1 ''r'' retry_token \<lparr>nx = None, px = Some 1000\<rparr>,
         SetCall 2 ''r'' retry_token \<lparr>nx = None, px = Some 1000\<rparr>,
         EvalCall 0 unlockScript [''r''] [ArgString retry_token],
         EvalCall 1 unlockScript [''r''] [ArgString retry_token],
         EvalCall 2 unlockScript [''r''] [ArgString retry_token],
         Emit (error validity_expired)]\<rparr>"
    by code_simp
  from C8_failed_attempt_is_rolled_back [where attempts = 0 and rl = test_redlock and
      env = retry_env and w = initial_world and res = "''r''" and ttl = 1000 and
      lockId = retry_token and startTime = 1000, OF h] a
  have r1: "acquire_loop retry_env test_redlock ''r'' 1000 retry_token 1000 0 initial_world =
            acquire_loop retry_env test_redlock ''r'' 1000 retry_token 1000 (Suc 0)
              (initial_world\<lparr>tick := tick initial_world + 3,
                 trace := trace initial_world @ fan_out retry_env test_redlock ''r'' retry_token 1000 (tick initial_world)
                          @ rollback retry_env test_redlock ''r'' retry_token (Suc (tick initial_world))
                          @ [Emit (attemptFailed ''r'' retry_token 0),
                             SetTimeout (retryDelay test_redlock)]\<rparr>)"
    by blast
  from C8_failed_attempt_is_rolled_back [where attempts = 0 and rl = test_redlock and
      env = slow_env and w = initial_world and res = "''r''" and ttl = 1000 and
      lockId = retry_token and startTime = 1000, OF h] b c
  have r2: "acquire_loop slow_env test_redlock ''r'' 1000 retry_token 1000 0 initial_world =
     (Inl validity_expired,
      initial_world\<lparr>tick := tick initial_world + 2,
               trace := trace initial_world @ fan_out slow_env test_redlock ''r'' retry_token 1000 (tick initial_world)
                        @ rollback slow_env test_redlock ''r'' retry_token (Suc (tick initial_world))
                        @ [Emit (error validity_expired)]\<rparr>)"
    by blast
  from C8_failed_attempt_is_rolled_back [where attempts = 2 and rl = test_redlock and
      env = retry_env and w = initial_world and res = "''r''" and ttl = 1000 and
      lockId = retry_token and startTime = 1000, OF h2] a d
  have r3: "acquire_loop retry_env test_redlock ''r'' 1000 retry_token 1000 2 initial_world =
     (Inl max_retries,
      initial_world\<lparr>tick := tick initial_world + 3,
               trace := trace initial_world
                        @ fan_out retry_env test_redlock ''r'' retry_token 1000 (tick initial_world)
                        @ rollback retry_env test_redlock ''r'' retry_token (Suc (tick initial_world))
                        @ [Emit (attemptFailed ''r'' retry_token 2),
                           SetTimeout (retryDelay test_redlock),
                           Emit (error max_retries)]\<rparr>)"
    by blast
  show ?thesis
    using h a b c r1 r2 r3 h2 d unfolding t1 t2 t3 by simp
qed

text \<open>
  C9. A store whose \<open>set\<close> call is rejected does not abort the fan-out: its promise is
  fulfilled with 0, a \<open>lockError\<close> event tagged with that store is emitted, and
  \<open>lockInstances\<close> returns normally, with the number of the other stores that answered
  \<open>'OK'\<close>.
\<close>

theorem C9_store_failures_are_isolated:
  assumes "i < length (clients rl)" and "set_reply env (tick w) i = Inl e"
  shows "outcome (lockPromises env rl res lockId ttl w ! i) = Inr 0 \<and>
         settled (lockPromises env rl res lockId ttl w ! i) = [Emit (lockError (clients rl ! i) e)] \<and>
         fst (lockInstances env rl res lockId ttl w) =
           Inr (length (filter (\<lambda>j. j \<noteq> i \<and> set_reply env (tick w) j = Inr OK)
                         [0 ..< length (clients rl)])) \<and>
         Emit (lockError (clients rl ! i) e) \<in> set (trace (snd (lockInstances env rl res lockId ttl w)))"
proof -
  have nth: "enumerate 0 (clients rl) ! i = (i, clients rl ! i)"
    using assms(1) by (simp add: nth_enumerate_eq)
  have p: "lockPromises env rl res lockId ttl w ! i =
        try_catch (client_set env w i (clients rl ! i) res lockId \<lparr>nx = None, px = Some ttl\<rparr>)
              (\<lambda>result. if result = OK then 1 else 0)
              (\<lambda>err. ([Emit (lockError (clients rl ! i) err)], Inr 0))"
    using assms(1) by (simp add: lockPromises_def nth)
  have o: "outcome (lockPromises env rl res lockId ttl w ! i) = Inr 0"
    unfolding p by (simp add: outcome_try_catch client_set_def assms(2))
  have s: "settled (lockPromises env rl res lockId ttl w ! i) = [Emit (lockError (clients rl ! i) e)]"
    unfolding p by (simp add: settled_try_catch client_set_def assms(2))
  have "(i, clients rl ! i) \<in> set (enumerate 0 (clients rl))"
    using assms(1) nth by (metis length_enumerate nth_mem)
  then have m: "Emit (lockError (clients rl ! i) e) \<in> set (lock_errors env rl (tick w))"
    unfolding lock_errors_def using assms(2) by (auto intro!: bexI [of _ "(i, clients rl ! i)"])
  have "(\<lambda>j. set_reply env (tick w) j = Inr OK) =
        (\<lambda>j. j \<noteq> i \<and> set_reply env (tick w) j = Inr OK)"
    using assms(2) by auto
  then have v: "votes env rl (tick w) =
      length (filter (\<lambda>j. j \<noteq> i \<and> set_reply env (tick w) j = Inr OK) [0 ..< length (clients rl)])"
    unfolding votes_def by simp
  show ?thesis
    using o s m v by (simp add: lockInstances_eq)
qed

theorem C9_witness:
  "0 < length (clients test_redlock) \<and>
   set_reply retry_env (tick initial_world) 0 = Inl ''ECONNREFUSED'' \<and>
   outcome (lockPromises retry_env test_redlock ''r'' retry_token 1000 initial_world ! 0) = Inr 0 \<and>
   settled (lockPromises retry_env test_redlock ''r'' retry_token 1000 initial_world ! 0) =
     [Emit (lockError 0 ''ECONNREFUSED'')] \<and>
   fst (lockInstances retry_env test_redlock ''r'' retry_token 1000 initial_world) = Inr 1 \<and>
   Emit (lockError 0 ''ECONNREFUSED'')
     \<in> set (trace (snd (lockInstances retry_env test_redlock ''r'' retry_token 1000 initial_world)))"
proof -
  have h1: "0 < length (clients test_redlock)"
    by code_simp
  have h2: "set_reply retry_env (tick initial_world) 0 = Inl ''ECONNREFUSED''"
    by code_simp
  have c: "clients test_redlock ! 0 = 0"
    by code_simp
  have v: "length (filter (\<lambda>j. j \<noteq> 0 \<and> set_reply retry_env (tick initial_world) j = Inr OK)
                     [0 ..< length (clients test_redlock)]) = 1"
    by code_simp
  from C9_store_failures_are_isolated [OF h1 h2, of "''r''" retry_token 1000] show ?thesis
    using h1 h2 unfolding v c by simp
qed

text \<open>
  C10. An explicit \<open>retryCount\<close> of 0 or \<open>retryDelay\<close> of 0 is replaced by the default
  (3 and 200), and no options value yields a zero retry count or a zero delay.
\<close>

theorem C10_zero_options_fall_back_to_defaults:
  "retryCount (constructor cs (Some \<lparr>opt_retryCount = Some 0, opt_retryDelay = d\<rparr>)) = 3 \<and>
   retryDelay (constructor cs (Some \<lparr>opt_retryCount = c, opt_retryDelay = Some 0\<rparr>)) = 200 \<and>
   retryCount (constructor cs options) \<noteq> 0 \<and>
   retryDelay (constructor cs options) \<noteq> 0"
  by (simp add: constructor_def js_or_def optional_chain_def split: option.splits)

subsection \<open>Further properties\<close>

text \<open>
  X1. The quorum is \<open>floor(N / 2) + 1\<close> for \<open>N\<close> clients: a strict majority, and at most
  \<open>N\<close> as soon as there is a client.
\<close>

theorem X1_quorum_is_a_majority:
  "quorum (constructor cs options) = length cs div 2 + 1 \<and>
   length cs < 2 * quorum (constructor cs options) \<and>
   quorum (constructor cs options) \<le> max 1 (length cs)"
  by (simp add: constructor_def) arith

text \<open>
  X2. A lock id is 32 lower-case hexadecimal digits (16 random bytes).
\<close>

theorem X2_lock_id_is_32_hex_digits:
  "length (fst (generateLockId env w)) = 32 \<and>
   set (fst (generateLockId env w)) \<subseteq> set ''0123456789abcdef''"
  using set_toString_hex
  by (simp add: generateLockId_def randomBytes_def length_toString_hex del: set_simps)

end
